theory Spec2Isabelle
  imports Complex_Main "HOL-Library.Word"
begin

section \<open>JavaScript values used by the storefront and checkout code\<close>

text \<open>
  A JavaScript string is a sequence of 16-bit code units. String literals of the source
  are written with \<open>js\<close>, which maps each character to its code unit.
\<close>

type_synonym jsstring = "16 word list"

definition js :: "string \<Rightarrow> jsstring" where
  "js s = map of_char s"

fun starts_with :: "jsstring \<Rightarrow> jsstring \<Rightarrow> bool" where
  "starts_with [] s = True"
| "starts_with (p # ps) [] = False"
| "starts_with (p # ps) (c # cs) = (p = c \<and> starts_with ps cs)"

subsection \<open>Numbers\<close>

text \<open>
  A JavaScript number is an IEEE 754 double: not-a-number, the two infinities, or a finite
  value. A finite double is kept as the rational it denotes; the two zeros are identified
  (the code below only adds numbers and compares them with \<open>>\<close> and \<open><\<close>, which do
  not tell them apart). \<open>toDouble\<close> rounds a rational to the nearest double, ties to
  the even significand, with overflow to an infinity (which a value below \<open>2 ^ 1023\<close>
  cannot reach).
\<close>

datatype number = NaN | PInf | NInf | Fin rat

function bitlen :: "int \<Rightarrow> int" where
  "bitlen n = (if n \<le> 0 then 0 else 1 + bitlen (n div 2))"
  by pat_completeness auto
termination
  by (relation "measure nat") auto

declare bitlen.simps [simp del]

definition pow2 :: "int \<Rightarrow> rat" where
  "pow2 k = (if 0 \<le> k then 2 ^ nat k else 1 / 2 ^ nat (- k))"

definition pow10 :: "int \<Rightarrow> rat" where
  "pow10 k = (if 0 \<le> k then 10 ^ nat k else 1 / 10 ^ nat (- k))"

definition ilog2 :: "rat \<Rightarrow> int" where
  "ilog2 a = (case quotient_of a of (n, d) \<Rightarrow>
     (let k = bitlen n - bitlen d
      in if pow2 k \<le> a then k else k - 1))"

definition round_half_even :: "rat \<Rightarrow> int" where
  "round_half_even x = (let f = \<lfloor>x\<rfloor>; r = x - of_int f
     in if r < 1 / 2 then f else if 1 / 2 < r then f + 1
        else if even f then f else f + 1)"

definition toDouble :: "rat \<Rightarrow> number" where
  "toDouble q = (if q = 0 then Fin 0 else
     (let a = \<bar>q\<bar>;
          e = max (ilog2 a - 52) (- 1074);
          v = of_int (round_half_even (a / pow2 e)) * pow2 e
      in if ilog2 a < 1023 then Fin (if 0 < q then v else - v)
         else if pow2 1024 \<le> v then (if 0 < q then PInf else NInf)
         else Fin (if 0 < q then v else - v)))"


fun num_add :: "number \<Rightarrow> number \<Rightarrow> number" where
  "num_add NaN y = NaN"
| "num_add x NaN = NaN"
| "num_add PInf NInf = NaN"
| "num_add NInf PInf = NaN"
| "num_add PInf y = PInf"
| "num_add NInf y = NInf"
| "num_add (Fin a) PInf = PInf"
| "num_add (Fin a) NInf = NInf"
| "num_add (Fin a) (Fin b) = toDouble (a + b)"

fun num_less :: "number \<Rightarrow> number \<Rightarrow> bool" where
  "num_less NaN y = False"
| "num_less x NaN = False"
| "num_less x NInf = False"
| "num_less PInf y = False"
| "num_less NInf y = True"
| "num_less (Fin a) PInf = True"
| "num_less (Fin a) (Fin b) = (a < b)"

definition isNaN :: "number \<Rightarrow> bool" where
  "isNaN x = (x = NaN)"

definition negate :: "bool \<Rightarrow> number \<Rightarrow> number" where
  "negate neg x = (if neg then (case x of NaN \<Rightarrow> NaN | PInf \<Rightarrow> NInf | NInf \<Rightarrow> PInf | Fin q \<Rightarrow> Fin (- q))
     else x)"

subsection \<open>parseFloat and parseInt\<close>

definition is_ws :: "16 word \<Rightarrow> bool" where
  "is_ws c = (c = 0x09 \<or> c = 0x0A \<or> c = 0x0B \<or> c = 0x0C \<or> c = 0x0D \<or> c = 0x20
     \<or> c = 0xA0 \<or> c = 0x1680 \<or> (0x2000 \<le> c \<and> c \<le> 0x200A) \<or> c = 0x2028
     \<or> c = 0x2029 \<or> c = 0x202F \<or> c = 0x205F \<or> c = 0x3000 \<or> c = 0xFEFF)"

definition is_digit :: "16 word \<Rightarrow> bool" where
  "is_digit c = (0x30 \<le> c \<and> c \<le> 0x39)"

definition hex_val :: "16 word \<Rightarrow> int option" where
  "hex_val c = (if 0x30 \<le> c \<and> c \<le> 0x39 then Some (uint c - 0x30)
     else if 0x61 \<le> c \<and> c \<le> 0x66 then Some (uint c - 0x61 + 10)
     else if 0x41 \<le> c \<and> c \<le> 0x46 then Some (uint c - 0x41 + 10)
     else None)"

definition digits_val :: "jsstring \<Rightarrow> int" where
  "digits_val ds = foldl (\<lambda>a c. 10 * a + (uint c - 0x30)) 0 ds"

definition hex_digits_val :: "jsstring \<Rightarrow> int" where
  "hex_digits_val ds = foldl (\<lambda>a c. 16 * a + (case hex_val c of Some v \<Rightarrow> v | None \<Rightarrow> 0)) 0 ds"

definition split_sign :: "jsstring \<Rightarrow> bool \<times> jsstring" where
  "split_sign s = (case s of [] \<Rightarrow> (False, [])
     | c # r \<Rightarrow> if c = 0x2D then (True, r) else if c = 0x2B then (False, r) else (False, s))"

text \<open>
  The exponent part of a decimal literal: \<open>e\<close> or \<open>E\<close>, an optional sign and at least
  one digit. Where that is not what follows, the literal ends before it and the exponent
  is 0.
\<close>

definition exponent_part :: "jsstring \<Rightarrow> int" where
  "exponent_part s = (case s of [] \<Rightarrow> 0
     | c # r \<Rightarrow> if c = 0x65 \<or> c = 0x45 then
         (case split_sign r of (neg, r') \<Rightarrow>
            (let es = takeWhile is_digit r'
             in if es = [] then 0 else if neg then - digits_val es else digits_val es))
       else 0)"

text \<open>
  \<open>parseFloat\<close>: leading white space is skipped, then the longest prefix that is a
  decimal literal (or \<open>Infinity\<close>) is read; there is none exactly when the result is
  \<open>NaN\<close>.
\<close>

definition parseFloat :: "jsstring \<Rightarrow> number" where
  "parseFloat s = (case split_sign (dropWhile is_ws s) of (neg, u) \<Rightarrow>
     if starts_with (js ''Infinity'') u then (if neg then NInf else PInf)
     else
       (let ds1 = takeWhile is_digit u; r1 = dropWhile is_digit u;
            dot = (case r1 of [] \<Rightarrow> False | c # _ \<Rightarrow> c = 0x2E);
            ds2 = (if dot then takeWhile is_digit (tl r1) else []);
            r2 = (if dot then dropWhile is_digit (tl r1) else r1)
        in if ds1 = [] \<and> ds2 = [] then NaN
           else negate neg (toDouble (of_int (digits_val (ds1 @ ds2))
                  * pow10 (exponent_part r2 - int (length ds2))))))"

text \<open>
  \<open>parseInt\<close> without a radix: white space, a sign, then hexadecimal digits after a
  \<open>0x\<close> or \<open>0X\<close> prefix and decimal digits otherwise; \<open>NaN\<close> when there is no digit.
\<close>

definition parseInt :: "jsstring \<Rightarrow> number" where
  "parseInt s = (case split_sign (dropWhile is_ws s) of (neg, u) \<Rightarrow>
     if starts_with (js ''0x'') u \<or> starts_with (js ''0X'') u then
       (let hs = takeWhile (\<lambda>c. hex_val c \<noteq> None) (drop 2 u)
        in if hs = [] then NaN else negate neg (toDouble (of_int (hex_digits_val hs))))
     else
       (let ds = takeWhile is_digit u
        in if ds = [] then NaN else negate neg (toDouble (of_int (digits_val ds)))))"

subsection \<open>JSON.parse and Object.entries\<close>

datatype js_error = SyntaxError | TypeError

datatype json = JNull | JBool bool | JNum number | JStr jsstring
  | JArr "json list" | JObj "(jsstring \<times> json) list"

datatype tok = LBrace | RBrace | LBrack | RBrack | Colon | Comma
  | TStr jsstring | TNum number | TTrue | TFalse | TNull

definition escape_char :: "16 word \<Rightarrow> 16 word option" where
  "escape_char e = (if e = 0x22 then Some 0x22 else if e = 0x5C then Some 0x5C
     else if e = 0x2F then Some 0x2F else if e = 0x62 then Some 0x08
     else if e = 0x66 then Some 0x0C else if e = 0x6E then Some 0x0A
     else if e = 0x72 then Some 0x0D else if e = 0x74 then Some 0x09 else None)"

text \<open>
  Inside a JSON string: the closing quote, one character (plain or escaped) or an error
  comes next.
\<close>

datatype str_item = StrEnd jsstring | StrChar "16 word" jsstring | StrBad

definition next_char :: "jsstring \<Rightarrow> str_item" where
  "next_char s = (case s of [] \<Rightarrow> StrBad
     | c # cs \<Rightarrow>
        if c = 0x22 then StrEnd cs
        else if c < 0x20 then StrBad
        else if c = 0x5C then
          (case cs of [] \<Rightarrow> StrBad
           | e # r \<Rightarrow>
               if e = 0x75 then
                 (if 4 \<le> length r \<and> list_all (\<lambda>h. hex_val h \<noteq> None) (take 4 r)
                  then StrChar (word_of_int (hex_digits_val (take 4 r))) (drop 4 r)
                  else StrBad)
               else (case escape_char e of None \<Rightarrow> StrBad | Some x \<Rightarrow> StrChar x r))
        else StrChar c cs)"

lemma next_char_shorter: "next_char s = StrChar x r \<Longrightarrow> length r < length s"
  by (cases s) (auto simp: next_char_def split: if_splits list.splits option.splits)

lemma next_char_end_shorter: "next_char s = StrEnd r \<Longrightarrow> length r < length s"
  by (cases s) (auto simp: next_char_def split: if_splits list.splits option.splits)

text \<open>
  The body of a JSON string, after its opening quote: the characters up to the closing
  quote with the escapes decoded, and the text after the closing quote.
\<close>

function lex_string :: "jsstring \<Rightarrow> jsstring \<Rightarrow> (jsstring \<times> jsstring) option" where
  "lex_string acc s = (case next_char s of
       StrBad \<Rightarrow> None
     | StrEnd r \<Rightarrow> Some (rev acc, r)
     | StrChar x r \<Rightarrow> lex_string (x # acc) r)"
  by pat_completeness auto
termination
  by (relation "measure (\<lambda>(acc, s). length s)") (auto dest: next_char_shorter)

declare lex_string.simps [simp del]

text \<open>
  A JSON number: an optional minus, an integer part without a leading zero, an optional
  fraction with at least one digit, an optional exponent with at least one digit, and
  nothing after it.
\<close>

definition json_number :: "jsstring \<Rightarrow> number option" where
  "json_number s =
     (let neg = (case s of [] \<Rightarrow> False | c # _ \<Rightarrow> c = 0x2D);
          u = (if neg then tl s else s);
          ip = (case u of [] \<Rightarrow> [] | d # r \<Rightarrow> if d = 0x30 then [d] else takeWhile is_digit u);
          r1 = drop (length ip) u;
          dot = (case r1 of [] \<Rightarrow> False | c # _ \<Rightarrow> c = 0x2E);
          fs = (if dot then takeWhile is_digit (tl r1) else []);
          r2 = (if dot then dropWhile is_digit (tl r1) else r1);
          ex = (case r2 of [] \<Rightarrow> False | c # _ \<Rightarrow> c = 0x65 \<or> c = 0x45);
          es = (if ex then takeWhile is_digit (snd (split_sign (tl r2))) else []);
          r3 = (if ex then dropWhile is_digit (snd (split_sign (tl r2))) else r2)
      in if ip = [] \<or> (dot \<and> fs = []) \<or> (ex \<and> es = []) \<or> r3 \<noteq> [] then None
         else Some (negate neg (toDouble (of_int (digits_val (ip @ fs))
                * pow10 ((if ex then exponent_part r2 else 0) - int (length fs))))))"

definition is_json_ws :: "16 word \<Rightarrow> bool" where
  "is_json_ws c = (c = 0x20 \<or> c = 0x09 \<or> c = 0x0A \<or> c = 0x0D)"

definition is_num_char :: "16 word \<Rightarrow> bool" where
  "is_num_char c = (is_digit c \<or> c = 0x2B \<or> c = 0x2D \<or> c = 0x2E \<or> c = 0x65 \<or> c = 0x45)"

lemma lex_string_shorter: "lex_string acc cs = Some (s, r) \<Longrightarrow> length r < length cs"
proof (induction acc cs rule: lex_string.induct)
  case (1 acc cs)
  show ?case
  proof (cases "next_char cs")
    case (StrEnd r')
    with 1 show ?thesis
      by (simp add: lex_string.simps [of acc cs] next_char_end_shorter)
  next
    case (StrChar x r')
    with 1 have "length r < length r'"
      by (simp add: lex_string.simps [of acc cs])
    with next_char_shorter [OF StrChar] show ?thesis by simp
  next
    case StrBad
    with 1 show ?thesis by (simp add: lex_string.simps [of acc cs])
  qed
qed

text \<open>
  The tokens of a JSON text. A number token is the longest run of number characters,
  which has to be a JSON number as a whole: in a JSON text a number is followed by white
  space, a comma, a closing bracket or the end.
\<close>

function lex :: "jsstring \<Rightarrow> tok list option" where
  "lex [] = Some []"
| "lex (c # cs) =
     (if is_json_ws c then lex cs
      else if c = 0x7B then map_option (Cons LBrace) (lex cs)
      else if c = 0x7D then map_option (Cons RBrace) (lex cs)
      else if c = 0x5B then map_option (Cons LBrack) (lex cs)
      else if c = 0x5D then map_option (Cons RBrack) (lex cs)
      else if c = 0x3A then map_option (Cons Colon) (lex cs)
      else if c = 0x2C then map_option (Cons Comma) (lex cs)
      else if c = 0x22 then
        (case lex_string [] cs of None \<Rightarrow> None
         | Some (s, r) \<Rightarrow> map_option (Cons (TStr s)) (lex r))
      else if c = 0x2D \<or> is_digit c then
        (case json_number (c # takeWhile is_num_char cs) of None \<Rightarrow> None
         | Some n \<Rightarrow> map_option (Cons (TNum n)) (lex (dropWhile is_num_char cs)))
      else if starts_with (js ''true'') (c # cs) then map_option (Cons TTrue) (lex (drop 3 cs))
      else if starts_with (js ''false'') (c # cs) then map_option (Cons TFalse) (lex (drop 4 cs))
      else if starts_with (js ''null'') (c # cs) then map_option (Cons TNull) (lex (drop 3 cs))
      else None)"
  by pat_completeness auto
termination
proof (relation "measure length", goal_cases)
  case 1
  show ?case by simp
next
  case (9 c cs x2 s r)
  then show ?case using lex_string_shorter [of "[]" cs s r] by simp
next
  case (10 c cs n)
  then show ?case using length_dropWhile_le [of is_num_char cs] by simp
qed simp_all

declare lex.simps [simp del]

text \<open>
  The parser runs over the tokens with a stack of the arrays and objects that are open.
  An object keeps its properties in the order of their creation; a repeated key
  overwrites the value of the earlier property and keeps its place.
\<close>

datatype pmode = WantValue | WantValueOrEnd | WantKeyOrEnd | WantKey | WantColon
  | WantCommaOrEnd | Finished json

datatype frame = InArr "json list" | InObj "(jsstring \<times> json) list" "jsstring option"

primrec put_prop :: "jsstring \<Rightarrow> json \<Rightarrow> (jsstring \<times> json) list \<Rightarrow> (jsstring \<times> json) list" where
  "put_prop k v [] = [(k, v)]"
| "put_prop k v (p # ps) = (if fst p = k then (k, v) # ps else p # put_prop k v ps)"

definition deliver :: "json \<Rightarrow> frame list \<Rightarrow> (pmode \<times> frame list) option" where
  "deliver v st = (case st of [] \<Rightarrow> Some (Finished v, [])
     | InArr es # st' \<Rightarrow> Some (WantCommaOrEnd, InArr (es @ [v]) # st')
     | InObj ps (Some k) # st' \<Rightarrow> Some (WantCommaOrEnd, InObj (put_prop k v ps) None # st')
     | InObj ps None # st' \<Rightarrow> None)"

definition start_value :: "tok \<Rightarrow> frame list \<Rightarrow> (pmode \<times> frame list) option" where
  "start_value t st = (case t of
       TStr s \<Rightarrow> deliver (JStr s) st
     | TNum n \<Rightarrow> deliver (JNum n) st
     | TTrue \<Rightarrow> deliver (JBool True) st
     | TFalse \<Rightarrow> deliver (JBool False) st
     | TNull \<Rightarrow> deliver JNull st
     | LBrack \<Rightarrow> Some (WantValueOrEnd, InArr [] # st)
     | LBrace \<Rightarrow> Some (WantKeyOrEnd, InObj [] None # st)
     | _ \<Rightarrow> None)"

definition close_array :: "frame list \<Rightarrow> (pmode \<times> frame list) option" where
  "close_array st = (case st of InArr es # st' \<Rightarrow> deliver (JArr es) st' | _ \<Rightarrow> None)"

definition close_object :: "frame list \<Rightarrow> (pmode \<times> frame list) option" where
  "close_object st = (case st of InObj ps None # st' \<Rightarrow> deliver (JObj ps) st' | _ \<Rightarrow> None)"

definition take_key :: "tok \<Rightarrow> frame list \<Rightarrow> (pmode \<times> frame list) option" where
  "take_key t st = (case (t, st) of
       (TStr k, InObj ps None # st') \<Rightarrow> Some (WantColon, InObj ps (Some k) # st')
     | _ \<Rightarrow> None)"

definition pstep :: "pmode \<times> frame list \<Rightarrow> tok \<Rightarrow> (pmode \<times> frame list) option" where
  "pstep ms t = (case ms of (m, st) \<Rightarrow>
     (case m of
        WantValue \<Rightarrow> start_value t st
      | WantValueOrEnd \<Rightarrow> if t = RBrack then close_array st else start_value t st
      | WantKeyOrEnd \<Rightarrow> if t = RBrace then close_object st else take_key t st
      | WantKey \<Rightarrow> take_key t st
      | WantColon \<Rightarrow> if t = Colon then Some (WantValue, st) else None
      | WantCommaOrEnd \<Rightarrow>
          (case st of
             InArr es # st' \<Rightarrow>
               if t = Comma then Some (WantValue, st)
               else if t = RBrack then close_array st else None
           | InObj ps k # st' \<Rightarrow>
               if t = Comma then Some (WantKey, st)
               else if t = RBrace then close_object st else None
           | [] \<Rightarrow> None)
      | Finished v \<Rightarrow> None))"

primrec prun :: "pmode \<times> frame list \<Rightarrow> tok list \<Rightarrow> (pmode \<times> frame list) option" where
  "prun ms [] = Some ms"
| "prun ms (t # ts) = (case pstep ms t of None \<Rightarrow> None | Some ms' \<Rightarrow> prun ms' ts)"

definition JSON_parse :: "jsstring \<Rightarrow> js_error + json" where
  "JSON_parse s = (case lex s of None \<Rightarrow> Inl SyntaxError
     | Some ts \<Rightarrow>
         (case prun (WantValue, []) ts of
            Some (Finished v, []) \<Rightarrow> Inr v
          | _ \<Rightarrow> Inl SyntaxError))"

text \<open>
  \<open>Object.entries\<close>: the own properties of the value as key and value pairs. For an
  object the keys that are array indices come first, in ascending order, then the other
  keys in the order of their creation; an array and a string have their indices as keys;
  a number and a boolean have no properties; \<open>null\<close> raises a TypeError.
\<close>

fun dec_string :: "nat \<Rightarrow> jsstring" where
  "dec_string n = (if n < 10 then [of_nat (48 + n)]
     else dec_string (n div 10) @ [of_nat (48 + n mod 10)])"

declare dec_string.simps [simp del]

definition is_array_index :: "jsstring \<Rightarrow> bool" where
  "is_array_index k = (k \<noteq> [] \<and> list_all is_digit k \<and> (k = [0x30] \<or> hd k \<noteq> 0x30)
     \<and> digits_val k < 2 ^ 32 - 1)"

definition Object_entries :: "json \<Rightarrow> js_error + (jsstring \<times> json) list" where
  "Object_entries data = (case data of
       JNull \<Rightarrow> Inl TypeError
     | JBool b \<Rightarrow> Inr []
     | JNum n \<Rightarrow> Inr []
     | JStr s \<Rightarrow> Inr (zip (map dec_string [0..<length s]) (map (\<lambda>c. JStr [c]) s))
     | JArr es \<Rightarrow> Inr (zip (map dec_string [0..<length es]) es)
     | JObj ps \<Rightarrow> Inr (sort_key (\<lambda>p. digits_val (fst p)) (filter (\<lambda>p. is_array_index (fst p)) ps)
                       @ filter (\<lambda>p. \<not> is_array_index (fst p)) ps))"

section \<open>The cart price transform\<close>

text \<open>
  A cart line as the function receives it: its id, the amount of
  \<open>cost.amountPerQuantity\<close> (a decimal in a string), the id of its merchandise (absent
  when the merchandise is not a product variant), and the two line attributes the input
  selects, \<open>attribute\<close> (the serialized properties) and \<open>priceAttribute\<close> (the
  additional price). An attribute may be absent, and its value may be null.
\<close>

record attribute_in =
  attr_value :: "jsstring option"

record cart_line =
  line_id :: jsstring
  amountPerQuantity :: jsstring
  merchandise_id :: "jsstring option"
  attribute :: "attribute_in option"
  priceAttribute :: "attribute_in option"

record CartTransformRunInput =
  lines :: "cart_line list"

text \<open>
  The result: \<open>lineExpand\<close> operations, each with the id of the cart line it replaces
  and the items that replace it; \<open>fixedPricePerUnit\<close> is the amount of
  \<open>price.adjustment.fixedPricePerUnit\<close>.
\<close>

record kv =
  key :: jsstring
  val :: json

record ExpandedItem =
  merchandiseId :: "jsstring option"
  quantity :: int
  fixedPricePerUnit :: number
  attributes :: "kv list"

record CartOperation =
  cartLineId :: jsstring
  expandedCartItems :: "ExpandedItem list"

record CartTransformRunResult =
  operations :: "CartOperation list"

definition EXCLUDED_ATTRIBUTES :: "jsstring set" where
  "EXCLUDED_ATTRIBUTES = {js ''_cart_transform_processed'', js ''_price''}"

text \<open>
  \<open>getAttributes\<close>: the body of its \<open>try\<close> block either completes with the list
  it has built or raises (\<open>JSON.parse\<close> on a malformed text, \<open>Object.entries\<close> on
  \<open>null\<close>); both raise before anything is pushed, so the \<open>catch\<close> block returns the
  empty list.
\<close>

definition getAttributes_try :: "cart_line \<Rightarrow> js_error + kv list" where
  "getAttributes_try item = (case attribute item of None \<Rightarrow> Inr []
     | Some a \<Rightarrow>
        (case attr_value a of None \<Rightarrow> Inr []
         | Some v \<Rightarrow>
            if v = [] then Inr []
            else (case JSON_parse v of Inl e \<Rightarrow> Inl e
                  | Inr data \<Rightarrow>
                     (case Object_entries data of Inl e \<Rightarrow> Inl e
                      | Inr es \<Rightarrow> Inr (map (\<lambda>(k, x). \<lparr>key = k, val = x\<rparr>) es)))))"

definition getAttributes :: "cart_line \<Rightarrow> kv list" where
  "getAttributes item = (case getAttributes_try item of Inl e \<Rightarrow> [] | Inr allAttributes \<Rightarrow> allAttributes)"

text \<open>
  The body of the loop over the cart lines, with the operations collected so far. Nothing
  in its \<open>try\<close> block raises (\<open>getAttributes\<close> catches its own errors), so the
  \<open>catch\<close> block has no branch here. Console output is left out.
\<close>

definition forEach_body :: "CartOperation list \<Rightarrow> cart_line \<Rightarrow> CartOperation list" where
  "forEach_body ops item =
     (let currentPrice = parseFloat (amountPerQuantity item)
      in case priceAttribute item of None \<Rightarrow> ops
         | Some pa \<Rightarrow>
            (case attr_value pa of None \<Rightarrow> ops
             | Some pv \<Rightarrow>
                if pv = [] then ops
                else
                  (let additionalPrice = parseFloat pv
                   in if \<not> isNaN additionalPrice \<and> num_less (Fin 0) additionalPrice then
                        (let allAttributes = getAttributes item;
                             isProcessed = list_ex (\<lambda>attr. key attr = js ''_cart_transform_processed'') allAttributes
                         in if \<not> isProcessed then
                              (let newUnitPrice = num_add currentPrice additionalPrice;
                                   pushed = allAttributes @ [\<lparr>key = js ''_cart_transform_processed'', val = JStr (js ''true'')\<rparr>];
                                   finalAttributes = filter (\<lambda>attr. key attr \<notin> EXCLUDED_ATTRIBUTES) pushed;
                                   expandOperation = \<lparr>cartLineId = line_id item,
                                     expandedCartItems = [\<lparr>merchandiseId = merchandise_id item, quantity = 1,
                                        fixedPricePerUnit = newUnitPrice, attributes = finalAttributes\<rparr>]\<rparr>
                               in ops @ [expandOperation])
                            else ops)
                      else ops)))"

definition cartTransformRun :: "CartTransformRunInput \<Rightarrow> CartTransformRunResult" where
  "cartTransformRun input =
     (if length (lines input) = 0 then \<lparr>operations = []\<rparr>
      else \<lparr>operations = foldl forEach_body [] (lines input)\<rparr>)"

text \<open>
  Modelled from the spec: the input query that binds \<open>attribute\<close> and \<open>priceAttribute\<close>
  to line attributes, and the checkout that applies the operations, are not among the
  sources. By the specification the additional price is read from a dedicated line
  attribute, the raw signal that the transform keeps out of the replacement, which is
  \<open>_price\<close> in \<open>EXCLUDED_ATTRIBUTES\<close>. \<open>as_cart_line\<close> is the cart line a second pass
  sees for a replacement item: its two attributes are looked up among the attributes of the
  item, the serialized properties under a key \<open>blob_key\<close>. \<open>second_pass_input\<close> is
  the cart after the operations: a line that an operation names is replaced by the items
  of that operation, every other line stays. The way the checkout prints the new price
  and the way it prints an attribute value are parameters.
\<close>

definition line_attribute :: "jsstring \<Rightarrow> (json \<Rightarrow> jsstring option) \<Rightarrow> kv list \<Rightarrow> attribute_in option" where
  "line_attribute k show_value attrs =
     map_option (\<lambda>a. \<lparr>attr_value = show_value (val a)\<rparr>) (find (\<lambda>a. key a = k) attrs)"

definition as_cart_line ::
  "(number \<Rightarrow> jsstring) \<Rightarrow> (json \<Rightarrow> jsstring option) \<Rightarrow> jsstring \<Rightarrow> jsstring \<Rightarrow> ExpandedItem \<Rightarrow> cart_line" where
  "as_cart_line show_amount show_value blob_key new_id item =
     \<lparr>line_id = new_id,
      amountPerQuantity = show_amount (fixedPricePerUnit item),
      merchandise_id = merchandiseId item,
      attribute = line_attribute blob_key show_value (attributes item),
      priceAttribute = line_attribute (js ''_price'') show_value (attributes item)\<rparr>"

definition second_pass_input ::
  "(number \<Rightarrow> jsstring) \<Rightarrow> (json \<Rightarrow> jsstring option) \<Rightarrow> jsstring
     \<Rightarrow> CartTransformRunInput \<Rightarrow> CartTransformRunResult \<Rightarrow> CartTransformRunInput" where
  "second_pass_input show_amount show_value blob_key input result =
     \<lparr>lines = concat (map (\<lambda>l.
        (case find (\<lambda>op. cartLineId op = line_id l) (operations result) of
           None \<Rightarrow> [l]
         | Some op \<Rightarrow> map (as_cart_line show_amount show_value blob_key (line_id l))
                        (expandedCartItems op))) (lines input))\<rparr>"

text \<open>
  Vocabulary for the properties: whether a list of attributes has the processed marker,
  the text of the additional-price signal of a line and of its serialized properties
  (absent when the attribute is missing or its value is null), and the operation that
  replaces a line at a new price.
\<close>

definition has_processed_marker :: "kv list \<Rightarrow> bool" where
  "has_processed_marker attrs = list_ex (\<lambda>attr. key attr = js ''_cart_transform_processed'') attrs"

definition signal_text :: "cart_line \<Rightarrow> jsstring option" where
  "signal_text item = (case priceAttribute item of None \<Rightarrow> None | Some pa \<Rightarrow> attr_value pa)"

definition blob_text :: "cart_line \<Rightarrow> jsstring option" where
  "blob_text item = (case attribute item of None \<Rightarrow> None | Some a \<Rightarrow> attr_value a)"

definition replacement :: "cart_line \<Rightarrow> number \<Rightarrow> CartOperation" where
  "replacement item price =
     \<lparr>cartLineId = line_id item,
      expandedCartItems = [\<lparr>merchandiseId = merchandise_id item, quantity = 1,
         fixedPricePerUnit = price,
         attributes = filter (\<lambda>attr. key attr \<notin> EXCLUDED_ATTRIBUTES) (getAttributes item)\<rparr>]\<rparr>"

text \<open>
  The scenario of the specification: a line with base price 20.00, the additional-price
  signal 5.50 and no processed marker among its properties; and the same line with
  properties that do not parse.
\<close>

definition scenario_line :: cart_line where
  \<open>scenario_line = \<lparr>line_id = js ''gid://shopify/CartLine/1'',
     amountPerQuantity = js ''20.00'',
     merchandise_id = Some (js ''gid://shopify/ProductVariant/7''),
     attribute = Some \<lparr>attr_value = Some (js ''{"Engraving":"Anna","_price":"5.50"}'')\<rparr>,
     priceAttribute = Some \<lparr>attr_value = Some (js ''5.50'')\<rparr>\<rparr>\<close>

definition scenario_replacement :: CartOperation where
  "scenario_replacement = \<lparr>cartLineId = js ''gid://shopify/CartLine/1'',
     expandedCartItems = [\<lparr>merchandiseId = Some (js ''gid://shopify/ProductVariant/7''),
        quantity = 1, fixedPricePerUnit = Fin (51 / 2),
        attributes = [\<lparr>key = js ''Engraving'', val = JStr (js ''Anna'')\<rparr>]\<rparr>]\<rparr>"

definition malformed_line :: cart_line where
  \<open>malformed_line = scenario_line\<lparr>attribute := Some \<lparr>attr_value = Some (js ''{"Engraving":'')\<rparr>\<rparr>\<close>


definition infinite_line :: cart_line where
  "infinite_line = scenario_line\<lparr>priceAttribute := Some \<lparr>attr_value = Some (js ''Infinity'')\<rparr>\<rparr>"

section \<open>The storefront renderers\<close>

text \<open>
  An option as the renderers read it; \<open>dependOnOptionId\<close>, \<open>showWhenValue\<close> and
  \<open>opt_values\<close> (the field \<open>values\<close>, a JSON text) may be null.
\<close>

record product_option =
  opt_id :: jsstring
  type :: jsstring
  dependOnOptionId :: "jsstring option"
  showWhenValue :: "jsstring option"
  opt_values :: "jsstring option"

text \<open>A null in a template literal prints as \<open>null\<close>.\<close>

definition interpolate :: "jsstring option \<Rightarrow> jsstring" where
  "interpolate v = (case v of None \<Rightarrow> js ''null'' | Some s \<Rightarrow> s)"

definition conditional_container :: "jsstring \<Rightarrow> jsstring option \<Rightarrow> jsstring \<Rightarrow> jsstring" where
  \<open>conditional_container dependOn expected html =
     [0x0A] @ js ''      <div class="conditional-option"'' @ [0x0A]
     @ js ''           data-depend-on="'' @ dependOn @ js ''"'' @ [0x0A]
     @ js ''           data-expected-value="'' @ interpolate expected @ js ''"'' @ [0x0A]
     @ js ''           style="display: none;">'' @ [0x0A]
     @ js ''        '' @ html @ [0x0A]
     @ js ''      </div>'' @ [0x0A]
     @ js ''    ''\<close>

text \<open>
  \<open>wrapWithConditional\<close>; the warning it writes to the console for a self-dependency
  is left out.
\<close>

definition wrapWithConditional :: "jsstring \<Rightarrow> product_option \<Rightarrow> product_option list \<Rightarrow> jsstring" where
  "wrapWithConditional html option allOptions =
     (case dependOnOptionId option of None \<Rightarrow> html
      | Some d \<Rightarrow>
          if d = [] then html
          else if opt_id option = d then html
          else (case find (\<lambda>opt. opt_id opt = d \<and> type opt = js ''radio'') allOptions of
                  None \<Rightarrow> html
                | Some dependOption \<Rightarrow> conditional_container d (showWhenValue option) html))"

text \<open>
  What a browser makes of the start tag of the first element of a fragment, as the HTML
  tokenizer reads it: the tag name, then attributes with a name and a value that is
  double-quoted, single-quoted, unquoted or missing, up to the closing \<open>>\<close>. The
  attributes are kept in the order they are read, so that the first of several with one
  name is the one that counts. Character references in values are not decoded.
\<close>

datatype tag_state = TagName | BeforeName | InName jsstring | AfterName jsstring
  | BeforeValue jsstring | DoubleQuoted jsstring jsstring | SingleQuoted jsstring jsstring
  | Unquoted jsstring jsstring | AfterQuoted | SelfClosing

datatype tag_result = Running tag_state "(jsstring \<times> jsstring) list"
  | Emitted "(jsstring \<times> jsstring) list"

definition is_html_ws :: "16 word \<Rightarrow> bool" where
  "is_html_ws c = (c = 0x09 \<or> c = 0x0A \<or> c = 0x0C \<or> c = 0x0D \<or> c = 0x20)"

definition is_ascii_alpha :: "16 word \<Rightarrow> bool" where
  "is_ascii_alpha c = ((0x41 \<le> c \<and> c \<le> 0x5A) \<or> (0x61 \<le> c \<and> c \<le> 0x7A))"

definition lower :: "16 word \<Rightarrow> 16 word" where
  "lower c = (if 0x41 \<le> c \<and> c \<le> 0x5A then c + 0x20 else c)"

definition before_name :: "(jsstring \<times> jsstring) list \<Rightarrow> 16 word \<Rightarrow> tag_result" where
  "before_name attrs c =
     (if is_html_ws c then Running BeforeName attrs
      else if c = 0x2F then Running SelfClosing attrs
      else if c = 0x3E then Emitted attrs
      else Running (InName [lower c]) attrs)"

definition tag_step :: "tag_state \<Rightarrow> (jsstring \<times> jsstring) list \<Rightarrow> 16 word \<Rightarrow> tag_result" where
  "tag_step st attrs c = (case st of
       TagName \<Rightarrow>
         if is_html_ws c then Running BeforeName attrs
         else if c = 0x2F then Running SelfClosing attrs
         else if c = 0x3E then Emitted attrs
         else Running TagName attrs
     | BeforeName \<Rightarrow> before_name attrs c
     | InName n \<Rightarrow>
         if is_html_ws c then Running (AfterName n) attrs
         else if c = 0x2F then Running SelfClosing (attrs @ [(n, [])])
         else if c = 0x3E then Emitted (attrs @ [(n, [])])
         else if c = 0x3D then Running (BeforeValue n) attrs
         else Running (InName (n @ [lower c])) attrs
     | AfterName n \<Rightarrow>
         if is_html_ws c then Running (AfterName n) attrs
         else if c = 0x2F then Running SelfClosing (attrs @ [(n, [])])
         else if c = 0x3D then Running (BeforeValue n) attrs
         else if c = 0x3E then Emitted (attrs @ [(n, [])])
         else Running (InName [lower c]) (attrs @ [(n, [])])
     | BeforeValue n \<Rightarrow>
         if is_html_ws c then Running (BeforeValue n) attrs
         else if c = 0x22 then Running (DoubleQuoted n []) attrs
         else if c = 0x27 then Running (SingleQuoted n []) attrs
         else if c = 0x3E then Emitted (attrs @ [(n, [])])
         else Running (Unquoted n [c]) attrs
     | DoubleQuoted n v \<Rightarrow>
         if c = 0x22 then Running AfterQuoted (attrs @ [(n, v)])
         else Running (DoubleQuoted n (v @ [c])) attrs
     | SingleQuoted n v \<Rightarrow>
         if c = 0x27 then Running AfterQuoted (attrs @ [(n, v)])
         else Running (SingleQuoted n (v @ [c])) attrs
     | Unquoted n v \<Rightarrow>
         if is_html_ws c then Running BeforeName (attrs @ [(n, v)])
         else if c = 0x3E then Emitted (attrs @ [(n, v)])
         else Running (Unquoted n (v @ [c])) attrs
     | AfterQuoted \<Rightarrow> before_name attrs c
     | SelfClosing \<Rightarrow> before_name attrs c)"

primrec run_tag :: "tag_result \<Rightarrow> jsstring \<Rightarrow> tag_result" where
  "run_tag r [] = r"
| "run_tag r (c # cs) =
     run_tag (case r of Emitted attrs \<Rightarrow> Emitted attrs | Running st attrs \<Rightarrow> tag_step st attrs c) cs"

definition first_tag_attributes :: "jsstring \<Rightarrow> (jsstring \<times> jsstring) list option" where
  "first_tag_attributes fragment = (case dropWhile (\<lambda>c. c \<noteq> 0x3C) fragment of
       lt # c # cs \<Rightarrow>
         if is_ascii_alpha c then
           (case run_tag (Running TagName []) cs of Emitted attrs \<Rightarrow> Some attrs | Running st attrs \<Rightarrow> None)
         else None
     | _ \<Rightarrow> None)"

text \<open>
  What the inline style of that first element says of it at first: hidden when its
  \<open>style\<close> attribute is exactly \<open>display: none;\<close>, not hidden when it has no
  \<open>style\<close> attribute, and undecided for any other style or when there is no complete
  start tag.
\<close>

datatype display = Hidden | NotHidden | Undecided

definition inline_display :: "jsstring \<Rightarrow> display" where
  "inline_display fragment = (case first_tag_attributes fragment of
       None \<Rightarrow> Undecided
     | Some attrs \<Rightarrow>
         (case map_of attrs (js ''style'') of
            None \<Rightarrow> NotHidden
          | Some v \<Rightarrow> if v = js ''display: none;'' then Hidden else Undecided))"

text \<open>For the proofs about tags: attributes read earlier, put before those of a run.\<close>

definition more_attributes :: "(jsstring \<times> jsstring) list \<Rightarrow> tag_result \<Rightarrow> tag_result" where
  "more_attributes pre r = (case r of Emitted attrs \<Rightarrow> Emitted (pre @ attrs)
     | Running st attrs \<Rightarrow> Running st (pre @ attrs))"

text \<open>
  Modelled from the spec: the default value of a radio option, the label of the first of
  its declared values. The values are read as \<open>renderRadioOption\<close> reads them
  (\<open>option.values ? JSON.parse(option.values) : []\<close>).
\<close>

definition first_value_label :: "product_option \<Rightarrow> jsstring option" where
  "first_value_label radio = (case opt_values radio of None \<Rightarrow> None
     | Some v \<Rightarrow>
        (case JSON_parse v of
           Inr (JArr (JObj ps # _)) \<Rightarrow>
             (case map_of ps (js ''label'') of Some (JStr l) \<Rightarrow> Some l | _ \<Rightarrow> None)
         | _ \<Rightarrow> None))"

text \<open>
  A radio option with the values Yes and No, and a text option shown when Yes is selected.
\<close>

definition radio_option :: product_option where
  \<open>radio_option = \<lparr>opt_id = js ''opt-gift'', type = js ''radio'', dependOnOptionId = None,
     showWhenValue = None,
     opt_values = Some (js ''[{"id":"v1","label":"Yes"},{"id":"v2","label":"No"}]'')\<rparr>\<close>

definition text_option :: product_option where
  \<open>text_option = \<lparr>opt_id = js ''opt-note'', type = js ''text'',
     dependOnOptionId = Some (js ''opt-gift''), showWhenValue = Some (js ''Yes''),
     opt_values = None\<rparr>\<close>

definition text_html :: jsstring where
  \<open>text_html = js ''<div class="product-option product-option--text" data-option-id="opt-note"></div>''\<close>

text \<open>
  \<open>validateNumberInput\<close>: from the value of the input field to its value afterwards and
  the notice shown (its text and its type), if any.
\<close>

definition validateNumberInput :: "jsstring \<Rightarrow> jsstring \<times> (jsstring \<times> jsstring) option" where
  "validateNumberInput input_value =
     (let v = parseInt input_value
      in if input_value = [] \<or> isNaN v then (input_value, None)
         else if num_less (Fin 99) v then
           (js ''99'', Some (js ''Auto-corrected to maximum value: 99'', js ''warning''))
         else if num_less v (Fin 0) then
           (js ''0'', Some (js ''Auto-corrected to minimum value: 0'', js ''warning''))
         else (input_value, None))"

section \<open>Properties of the numbers\<close>

lemma pow2_powi: "pow2 k = 2 powi k"
  by (simp add: pow2_def power_int_def power_one_over inverse_eq_divide)

lemma pow2_pos: "0 < pow2 k"
  by (simp add: pow2_powi)

lemma pow2_add: "pow2 (i + j) = pow2 i * pow2 j"
  by (simp add: pow2_powi power_int_add)

lemma pow2_less_iff: "pow2 i < pow2 j \<longleftrightarrow> i < j"
proof
  assume "pow2 i < pow2 j"
  show "i < j"
  proof (rule ccontr)
    assume "\<not> i < j"
    then have "j \<le> i" by simp
    then have "pow2 j \<le> pow2 i"
      unfolding pow2_powi by (intro power_int_increasing) simp_all
    with \<open>pow2 i < pow2 j\<close> show False by simp
  qed
next
  assume "i < j"
  then show "pow2 i < pow2 j"
    unfolding pow2_powi by (intro power_int_strict_increasing) simp_all
qed


lemma pow2_nat: "0 \<le> k \<Longrightarrow> pow2 k = of_int (2 ^ nat k)"
  by (simp add: pow2_def)

lemma bitlen_bounds:
  "0 < n \<Longrightarrow> 0 < bitlen n \<and> 2 ^ nat (bitlen n - 1) \<le> n \<and> n < 2 ^ nat (bitlen n)"
proof (induction n rule: bitlen.induct)
  case (1 n)
  show ?case
  proof (cases "n = 1")
    case True
    have "bitlen 1 = 1 + bitlen 0" by (simp add: bitlen.simps [of 1])
    also have "bitlen 0 = 0" by (simp add: bitlen.simps [of 0])
    finally show ?thesis using True by simp
  next
    case False
    with "1.prems" have h: "0 < n div 2" by simp
    from "1.IH" [OF _ h] "1.prems" have b: "0 < bitlen (n div 2)"
      and lo: "2 ^ nat (bitlen (n div 2) - 1) \<le> n div 2"
      and hi: "n div 2 < 2 ^ nat (bitlen (n div 2))"
      by simp_all
    define c where "c = bitlen (n div 2)"
    define P :: int where "P = 2 ^ nat (c - 1)"
    from b have c: "0 < c" by (simp add: c_def)
    then have "nat c = Suc (nat (c - 1))" by simp
    then have p: "(2::int) ^ nat c = 2 * P"
      unfolding P_def by simp
    have bn: "bitlen n = 1 + c"
      using "1.prems" by (simp add: bitlen.simps [of n] c_def)
    from c have "nat (1 + c) = Suc (nat c)" by simp
    then have q: "(2::int) ^ nat (1 + c) = 2 * (2 * P)"
      using p by simp
    from lo hi have "2 * P \<le> n" "n < 2 * (2 * P)"
      unfolding c_def [symmetric] p P_def [symmetric] by simp_all
    with c show ?thesis
      unfolding bn q by (simp add: p)
  qed
qed



lemma ilog2_bounds:
  assumes "0 < a"
  shows "pow2 (ilog2 a) \<le> a \<and> a < pow2 (ilog2 a + 1)"
proof -
  obtain n d where qd: "quotient_of a = (n, d)" by (cases "quotient_of a")
  then have d: "0 < d" by (rule quotient_of_denom_pos)
  from qd have a: "a = of_int n / of_int d" by (rule quotient_of_div)
  with assms d have n: "0 < n" by (simp add: zero_less_divide_iff)
  define bn where "bn = bitlen n"
  define bd where "bd = bitlen d"
  define k where "k = bn - bd"
  from bitlen_bounds [OF n] have bn: "0 < bn" "2 ^ nat (bn - 1) \<le> n" "n < 2 ^ nat bn"
    by (simp_all add: bn_def)
  from bitlen_bounds [OF d] have bd: "0 < bd" "2 ^ nat (bd - 1) \<le> d" "d < 2 ^ nat bd"
    by (simp_all add: bd_def)
  have n1: "pow2 (bn - 1) \<le> of_int n" and n2: "of_int n < pow2 bn"
    using bn by (simp_all add: pow2_nat flip: of_int_power)
  have d1: "pow2 (bd - 1) \<le> of_int d" and d2: "of_int d < pow2 bd"
    using bd by (simp_all add: pow2_nat flip: of_int_power)
  have dpos: "(0::rat) < of_int d" using d by simp
  have "of_int n < pow2 (k + 1) * pow2 (bd - 1)"
    using n2 pow2_add [of "k + 1" "bd - 1"] by (simp add: k_def)
  also have "\<dots> \<le> pow2 (k + 1) * of_int d"
    using d1 pow2_pos [of "k + 1"] by (intro mult_left_mono) simp_all
  finally have up: "a < pow2 (k + 1)"
    using dpos by (simp add: a pos_divide_less_eq)
  have "pow2 (k - 1) * of_int d < pow2 (k - 1) * pow2 bd"
    using d2 pow2_pos [of "k - 1"] by (intro mult_strict_left_mono) simp_all
  also have "\<dots> = pow2 (bn - 1)"
    using pow2_add [of "k - 1" bd] by (simp add: k_def)
  also have "\<dots> \<le> of_int n" by (rule n1)
  finally have lo: "pow2 (k - 1) < a"
    using dpos by (simp add: a pos_less_divide_eq)
  have "ilog2 a = (if pow2 k \<le> a then k else k - 1)"
    by (simp add: ilog2_def qd Let_def k_def bn_def bd_def)
  with up lo show ?thesis by (auto simp: not_le)
qed

lemma ilog2_unique:
  assumes "pow2 E \<le> a" and "a < pow2 (E + 1)"
  shows "ilog2 a = E"
proof -
  from assms(1) pow2_pos [of E] have "0 < a" by simp
  from ilog2_bounds [OF this] assms
  have "pow2 (ilog2 a) < pow2 (E + 1)" "pow2 E < pow2 (ilog2 a + 1)"
    by simp_all
  then show ?thesis by (simp add: pow2_less_iff)
qed









section \<open>Properties of the cart price transform\<close>

lemma parseFloat_empty: "parseFloat [] = NaN"
  by (simp add: parseFloat_def split_sign_def js_def)

lemma forEach_body_append: "forEach_body ops item = ops @ forEach_body [] item"
  by (simp add: forEach_body_def Let_def split: option.splits)

lemma foldl_forEach_body: "foldl forEach_body ops ls = ops @ concat (map (forEach_body []) ls)"
proof (induction ls arbitrary: ops)
  case Nil
  show ?case by simp
next
  case (Cons l ls)
  have "foldl forEach_body ops (l # ls) = foldl forEach_body (forEach_body ops l) ls" by simp
  also have "\<dots> = forEach_body ops l @ concat (map (forEach_body []) ls)" by (rule Cons.IH)
  also have "\<dots> = ops @ forEach_body [] l @ concat (map (forEach_body []) ls)"
    using forEach_body_append [of ops l] by simp
  finally show ?case by simp
qed

text \<open>The operations of a run are those of its lines, one after the other.\<close>

lemma operations_cartTransformRun:
  "operations (cartTransformRun input) = concat (map (forEach_body []) (lines input))"
  by (cases "lines input") (simp_all add: cartTransformRun_def foldl_forEach_body)

lemma operations_empty_cart: "operations (cartTransformRun \<lparr>lines = []\<rparr>) = []"
  by (simp add: cartTransformRun_def)

lemma marker_excluded: "js ''_cart_transform_processed'' \<in> EXCLUDED_ATTRIBUTES"
  by (simp add: EXCLUDED_ATTRIBUTES_def)

lemma price_excluded: "js ''_price'' \<in> EXCLUDED_ATTRIBUTES"
  by (simp add: EXCLUDED_ATTRIBUTES_def)

lemma forEach_body_adjusts:
  assumes "signal_text item = Some pv" "\<not> isNaN (parseFloat pv)" "num_less (Fin 0) (parseFloat pv)"
    and "\<not> has_processed_marker (getAttributes item)"
  shows "forEach_body [] item =
    [replacement item (num_add (parseFloat (amountPerQuantity item)) (parseFloat pv))]"
proof -
  from assms(2) have "pv \<noteq> []" using parseFloat_empty by (auto simp: isNaN_def)
  with assms show ?thesis
    by (auto simp: forEach_body_def Let_def signal_text_def has_processed_marker_def
        replacement_def marker_excluded split: option.splits)
qed

lemma forEach_body_skips:
  assumes "signal_text item = None \<or> (\<exists>pv. signal_text item = Some pv \<and>
      (isNaN (parseFloat pv) \<or> \<not> num_less (Fin 0) (parseFloat pv)))
     \<or> has_processed_marker (getAttributes item)"
  shows "forEach_body [] item = []"
  using assms
  by (auto simp: forEach_body_def Let_def signal_text_def has_processed_marker_def
      split: option.splits)

lemma forEach_body_cases:
  "forEach_body [] item = [] \<or>
   (\<exists>pv. signal_text item = Some pv \<and> \<not> isNaN (parseFloat pv) \<and> num_less (Fin 0) (parseFloat pv)
      \<and> \<not> has_processed_marker (getAttributes item)
      \<and> forEach_body [] item =
          [replacement item (num_add (parseFloat (amountPerQuantity item)) (parseFloat pv))])"
proof (cases "\<exists>pv. signal_text item = Some pv \<and> \<not> isNaN (parseFloat pv)
      \<and> num_less (Fin 0) (parseFloat pv) \<and> \<not> has_processed_marker (getAttributes item)")
  case True
  then show ?thesis using forEach_body_adjusts by blast
next
  case False
  then have "forEach_body [] item = []"
    by (intro forEach_body_skips) (cases "signal_text item"; auto)
  then show ?thesis by simp
qed

lemma emitted_operation:
  assumes "op \<in> set (operations (cartTransformRun input))"
  shows "\<exists>item \<in> set (lines input). \<exists>price. op = replacement item price
     \<and> \<not> has_processed_marker (getAttributes item)"
proof -
  from assms obtain item where i: "item \<in> set (lines input)" and o: "op \<in> set (forEach_body [] item)"
    by (auto simp: operations_cartTransformRun)
  from forEach_body_cases [of item] o obtain pv
    where m: "\<not> has_processed_marker (getAttributes item)"
      and "forEach_body [] item =
        [replacement item (num_add (parseFloat (amountPerQuantity item)) (parseFloat pv))]"
    by auto
  with o have "op = replacement item (num_add (parseFloat (amountPerQuantity item)) (parseFloat pv))"
    by simp
  with i m show ?thesis by blast
qed

lemma only_result: "operations r = [] \<Longrightarrow> r = \<lparr>operations = []\<rparr>"
  by (cases r) simp

lemma find_in_set: "find P xs = Some x \<Longrightarrow> x \<in> set xs"
  by (auto simp: find_Some_iff)

lemma no_signal_after_replacement:
  "priceAttribute (as_cart_line show_amount show_value blob_key new_id
      (hd (expandedCartItems (replacement item price)))) = None"
  by (auto simp: as_cart_line_def line_attribute_def replacement_def find_None_iff price_excluded)

text \<open>
  A second pass over the cart that the operations of a first pass leave: a line that was
  replaced has no \<open>_price\<close> attribute any more, and a line that was not replaced gave no
  operation in the first pass and gives none now.
\<close>

lemma second_pass_operations:
  "operations (cartTransformRun
     (second_pass_input show_amount show_value blob_key input (cartTransformRun input))) = []"
proof -
  let ?ops = "operations (cartTransformRun input)"
  have "forEach_body [] l' = []"
    if l: "l \<in> set (lines input)"
      and l': "l' \<in> set (case find (\<lambda>op. cartLineId op = line_id l) ?ops of
           None \<Rightarrow> [l]
         | Some op \<Rightarrow> map (as_cart_line show_amount show_value blob_key (line_id l))
                        (expandedCartItems op))" for l l'
  proof (cases "find (\<lambda>op. cartLineId op = line_id l) ?ops")
    case None
    with l' have eq: "l' = l" by simp
    from None have n: "\<forall>op \<in> set ?ops. cartLineId op \<noteq> line_id l"
      by (auto simp: find_None_iff)
    show ?thesis
    proof (rule ccontr)
      assume "forEach_body [] l' \<noteq> []"
      with forEach_body_cases [of l] eq obtain price where "forEach_body [] l = [replacement l price]"
        by auto
      with l have "replacement l price \<in> set ?ops"
        by (auto simp: operations_cartTransformRun intro!: bexI [of _ l])
      with n show False by (auto simp: replacement_def)
    qed
  next
    case (Some op)
    with l' obtain it where it: "it \<in> set (expandedCartItems op)"
      and eq: "l' = as_cart_line show_amount show_value blob_key (line_id l) it"
      by auto
    from Some have "op \<in> set ?ops" by (rule find_in_set)
    from emitted_operation [OF this] obtain item price where "op = replacement item price"
      by blast
    with it eq have "priceAttribute l' = None"
      using no_signal_after_replacement [of show_amount show_value blob_key "line_id l" item price]
      by (simp add: replacement_def)
    then have "signal_text l' = None" by (simp add: signal_text_def)
    then show ?thesis by (intro forEach_body_skips) simp
  qed
  then show ?thesis
    by (auto simp: operations_cartTransformRun second_pass_input_def)
qed

lemma scenario_operations:
  "operations (cartTransformRun \<lparr>lines = [scenario_line]\<rparr>) = [scenario_replacement]"
  by code_simp

lemma scenario_attributes:
  "getAttributes scenario_line =
     [\<lparr>key = js ''Engraving'', val = JStr (js ''Anna'')\<rparr>, \<lparr>key = js ''_price'', val = JStr (js ''5.50'')\<rparr>]"
  by code_simp

text \<open>
  C1. The transform is idempotent: a second run, over the cart in which the replacement
  lines of the first run (with the attributes the first run emitted) stand for the lines
  they replace, emits no operation at all, so no line adjusted in the first pass is
  adjusted again.
\<close>

theorem second_pass_emits_nothing:
  "cartTransformRun (second_pass_input show_amount show_value blob_key input (cartTransformRun input))
     = \<lparr>operations = []\<rparr>"
  by (rule only_result) (rule second_pass_operations)




text \<open>
  C3, as amended. When the transform adjusts a line, the processed marker it appends to its
  working list is removed again by the filter on \<open>EXCLUDED_ATTRIBUTES\<close>: no replacement
  line carries the marker. For the line with base price 20.00, the signal 5.50 and no
  marker, the operation has the unit price 25.5 and no marker on the result, and a second
  run over that result emits nothing (the replacement has no \<open>_price\<close> attribute).
\<close>

theorem replacement_has_no_marker:
  assumes "op \<in> set (operations (cartTransformRun input))" and "it \<in> set (expandedCartItems op)"
  shows "\<not> has_processed_marker (attributes it)
     \<and> operations (cartTransformRun \<lparr>lines = [scenario_line]\<rparr>) = [scenario_replacement]
     \<and> cartTransformRun (second_pass_input show_amount show_value blob_key
          \<lparr>lines = [scenario_line]\<rparr> (cartTransformRun \<lparr>lines = [scenario_line]\<rparr>))
        = \<lparr>operations = []\<rparr>"
proof -
  from emitted_operation [OF assms(1)] obtain item price
    where "op = replacement item price" by blast
  with assms(2) have "attributes it = filter (\<lambda>attr. key attr \<notin> EXCLUDED_ATTRIBUTES) (getAttributes item)"
    by (simp add: replacement_def)
  then have "\<not> has_processed_marker (attributes it)"
    by (auto simp: has_processed_marker_def list_ex_iff marker_excluded)
  then show ?thesis
    using scenario_operations only_result [OF second_pass_operations] by blast
qed

theorem replacement_has_no_marker_witness:
  "scenario_replacement \<in> set (operations (cartTransformRun \<lparr>lines = [scenario_line]\<rparr>))
   \<and> attributes (hd (expandedCartItems scenario_replacement)) = [\<lparr>key = js ''Engraving'', val = JStr (js ''Anna'')\<rparr>]
   \<and> \<not> has_processed_marker (attributes (hd (expandedCartItems scenario_replacement)))"
proof -
  have o: "scenario_replacement \<in> set (operations (cartTransformRun \<lparr>lines = [scenario_line]\<rparr>))"
    by (simp add: scenario_operations)
  have i: "hd (expandedCartItems scenario_replacement) \<in> set (expandedCartItems scenario_replacement)"
    by (simp add: scenario_replacement_def)
  have a: "attributes (hd (expandedCartItems scenario_replacement))
      = [\<lparr>key = js ''Engraving'', val = JStr (js ''Anna'')\<rparr>]"
    by (simp add: scenario_replacement_def)
  from replacement_has_no_marker [OF o i] o a show ?thesis by blast
qed

theorem replacement_marker_counterexample:
  "operations (cartTransformRun \<lparr>lines = [scenario_line]\<rparr>) =
     [\<lparr>cartLineId = js ''gid://shopify/CartLine/1'',
       expandedCartItems = [\<lparr>merchandiseId = Some (js ''gid://shopify/ProductVariant/7''),
          quantity = 1, fixedPricePerUnit = Fin (51 / 2),
          attributes = [\<lparr>key = js ''Engraving'', val = JStr (js ''Anna'')\<rparr>]\<rparr>]\<rparr>]
   \<and> \<not> has_processed_marker [\<lparr>key = js ''Engraving'', val = JStr (js ''Anna'')\<rparr>]"
  by code_simp

text \<open>
  C4. The attributes of a replacement item never have the key of the processed marker or
  of the raw price signal, and they are the attributes parsed from the properties of the
  line it replaces, without those two keys: every other attribute is there, unchanged and
  in the same order.
\<close>

theorem replacement_attributes_filtered:
  assumes "op \<in> set (operations (cartTransformRun input))" and "it \<in> set (expandedCartItems op)"
  shows "(\<forall>a \<in> set (attributes it). key a \<noteq> js ''_cart_transform_processed'' \<and> key a \<noteq> js ''_price'')
     \<and> (\<exists>item \<in> set (lines input). cartLineId op = line_id item
          \<and> attributes it =
              filter (\<lambda>a. key a \<noteq> js ''_cart_transform_processed'' \<and> key a \<noteq> js ''_price'')
                (getAttributes item))"
proof -
  from emitted_operation [OF assms(1)] obtain item price
    where i: "item \<in> set (lines input)" and o: "op = replacement item price" by blast
  from o assms(2)
  have a: "attributes it = filter (\<lambda>attr. key attr \<notin> EXCLUDED_ATTRIBUTES) (getAttributes item)"
    by (simp add: replacement_def)
  have e: "(k \<notin> EXCLUDED_ATTRIBUTES) = (k \<noteq> js ''_cart_transform_processed'' \<and> k \<noteq> js ''_price'')" for k
    by (auto simp: EXCLUDED_ATTRIBUTES_def)
  from a e i o show ?thesis
    by (auto simp: replacement_def)
qed

theorem replacement_attributes_filtered_witness:
  "scenario_replacement \<in> set (operations (cartTransformRun \<lparr>lines = [scenario_line]\<rparr>))
   \<and> getAttributes scenario_line =
     [\<lparr>key = js ''Engraving'', val = JStr (js ''Anna'')\<rparr>, \<lparr>key = js ''_price'', val = JStr (js ''5.50'')\<rparr>]
   \<and> attributes (hd (expandedCartItems scenario_replacement))
       = [\<lparr>key = js ''Engraving'', val = JStr (js ''Anna'')\<rparr>]
   \<and> (\<exists>item \<in> set (lines \<lparr>lines = [scenario_line]\<rparr>). cartLineId scenario_replacement = line_id item
        \<and> attributes (hd (expandedCartItems scenario_replacement)) =
            filter (\<lambda>a. key a \<noteq> js ''_cart_transform_processed'' \<and> key a \<noteq> js ''_price'')
              (getAttributes item))"
proof -
  have o: "scenario_replacement \<in> set (operations (cartTransformRun \<lparr>lines = [scenario_line]\<rparr>))"
    by (simp add: scenario_operations)
  have i: "hd (expandedCartItems scenario_replacement) \<in> set (expandedCartItems scenario_replacement)"
    by (simp add: scenario_replacement_def)
  have a: "attributes (hd (expandedCartItems scenario_replacement))
      = [\<lparr>key = js ''Engraving'', val = JStr (js ''Anna'')\<rparr>]"
    by (simp add: scenario_replacement_def)
  from replacement_attributes_filtered [OF o i] o a scenario_attributes show ?thesis
    by blast
qed

text \<open>
  C5, as amended. A line whose additional-price signal is absent, or parses to
  not-a-number, to zero or to a negative number (minus infinity among them), gives no
  operation: the run emits what it emits without the line. The guard of the transform is
  that the signal is a number above zero, with no test that it is finite, so a signal that
  parses to plus infinity is not among these lines.
\<close>

theorem no_signal_no_operation:
  assumes "signal_text item = None \<or> (\<exists>pv. signal_text item = Some pv \<and>
      (isNaN (parseFloat pv) \<or> \<not> num_less (Fin 0) (parseFloat pv)))"
  shows "operations (cartTransformRun \<lparr>lines = before @ item # after\<rparr>) =
     operations (cartTransformRun \<lparr>lines = before @ after\<rparr>)"
proof -
  have "forEach_body [] item = []"
    using assms by (intro forEach_body_skips) blast
  then show ?thesis by (simp add: operations_cartTransformRun)
qed

theorem no_signal_no_operation_witness:
  "operations (cartTransformRun \<lparr>lines = [scenario_line\<lparr>priceAttribute := None\<rparr>]\<rparr>) = []
   \<and> operations (cartTransformRun
        \<lparr>lines = [scenario_line\<lparr>priceAttribute := Some \<lparr>attr_value = Some (js ''0'')\<rparr>\<rparr>]\<rparr>) = []
   \<and> operations (cartTransformRun
        \<lparr>lines = [scenario_line\<lparr>priceAttribute := Some \<lparr>attr_value = Some (js ''-3'')\<rparr>\<rparr>]\<rparr>) = []
   \<and> operations (cartTransformRun
        \<lparr>lines = [scenario_line\<lparr>priceAttribute := Some \<lparr>attr_value = Some (js ''abc'')\<rparr>\<rparr>]\<rparr>) = []"
proof -
  have absent: "signal_text (scenario_line\<lparr>priceAttribute := None\<rparr>) = None"
    by (simp add: signal_text_def)
  have given: "signal_text (scenario_line\<lparr>priceAttribute := Some \<lparr>attr_value = Some pv\<rparr>\<rparr>) = Some pv" for pv
    by (simp add: signal_text_def)
  have zero: "\<not> num_less (Fin 0) (parseFloat (js ''0''))" by code_simp
  have negative: "\<not> num_less (Fin 0) (parseFloat (js ''-3''))" by code_simp
  have letters: "isNaN (parseFloat (js ''abc''))" by code_simp
  have "operations (cartTransformRun \<lparr>lines = [] @ scenario_line\<lparr>priceAttribute := None\<rparr> # []\<rparr>) = []"
    using no_signal_no_operation [of "scenario_line\<lparr>priceAttribute := None\<rparr>" "[]" "[]"] absent
    by (simp add: operations_empty_cart)
  moreover have "operations (cartTransformRun
      \<lparr>lines = [] @ scenario_line\<lparr>priceAttribute := Some \<lparr>attr_value = Some (js ''0'')\<rparr>\<rparr> # []\<rparr>) = []"
    using no_signal_no_operation
      [of "scenario_line\<lparr>priceAttribute := Some \<lparr>attr_value = Some (js ''0'')\<rparr>\<rparr>" "[]" "[]"]
      given [of "js ''0''"] zero
    by (simp add: operations_empty_cart)
  moreover have "operations (cartTransformRun
      \<lparr>lines = [] @ scenario_line\<lparr>priceAttribute := Some \<lparr>attr_value = Some (js ''-3'')\<rparr>\<rparr> # []\<rparr>) = []"
    using no_signal_no_operation
      [of "scenario_line\<lparr>priceAttribute := Some \<lparr>attr_value = Some (js ''-3'')\<rparr>\<rparr>" "[]" "[]"]
      given [of "js ''-3''"] negative
    by (simp add: operations_empty_cart)
  moreover have "operations (cartTransformRun
      \<lparr>lines = [] @ scenario_line\<lparr>priceAttribute := Some \<lparr>attr_value = Some (js ''abc'')\<rparr>\<rparr> # []\<rparr>) = []"
    using no_signal_no_operation
      [of "scenario_line\<lparr>priceAttribute := Some \<lparr>attr_value = Some (js ''abc'')\<rparr>\<rparr>" "[]" "[]"]
      given [of "js ''abc''"] letters
    by (simp add: operations_empty_cart)
  ultimately show ?thesis by simp
qed

theorem infinite_signal_counterexample:
  "signal_text infinite_line = Some (js ''Infinity'') \<and> parseFloat (js ''Infinity'') = PInf
   \<and> operations (cartTransformRun \<lparr>lines = [infinite_line]\<rparr>) =
       [\<lparr>cartLineId = js ''gid://shopify/CartLine/1'',
         expandedCartItems = [\<lparr>merchandiseId = Some (js ''gid://shopify/ProductVariant/7''),
            quantity = 1, fixedPricePerUnit = PInf,
            attributes = [\<lparr>key = js ''Engraving'', val = JStr (js ''Anna'')\<rparr>]\<rparr>]\<rparr>]"
  by code_simp

text \<open>
  C6. For the empty cart the transform returns exactly the result with no operations.
\<close>

theorem empty_cart_no_operations:
  "cartTransformRun \<lparr>lines = []\<rparr> = \<lparr>operations = []\<rparr>"
  by (simp add: cartTransformRun_def)

text \<open>
  C9. Reading the serialized properties of a line never raises: \<open>getAttributes\<close> returns a
  list for every line, and for a line whose properties are missing, do not parse, or
  parse to \<open>null\<close> (where \<open>Object.entries\<close> raises) that list is empty. Such a line is
  classified by its other fields: with a positive numeric signal it still gets its
  adjustment, with no attributes on the replacement.
\<close>

theorem malformed_blob_empty_attributes:
  assumes "blob_text item = None \<or> (\<exists>v. blob_text item = Some v \<and>
      ((\<exists>e. JSON_parse v = Inl e) \<or> JSON_parse v = Inr JNull))"
  shows "getAttributes item = []
     \<and> (\<forall>pv. signal_text item = Some pv \<and> \<not> isNaN (parseFloat pv) \<and> num_less (Fin 0) (parseFloat pv) \<longrightarrow>
          operations (cartTransformRun \<lparr>lines = [item]\<rparr>) =
            [\<lparr>cartLineId = line_id item,
              expandedCartItems = [\<lparr>merchandiseId = merchandise_id item, quantity = 1,
                 fixedPricePerUnit = num_add (parseFloat (amountPerQuantity item)) (parseFloat pv),
                 attributes = []\<rparr>]\<rparr>])"
proof -
  from assms have g: "getAttributes item = []"
    by (auto simp: getAttributes_def getAttributes_try_def blob_text_def Object_entries_def
        split: option.splits)
  then have "\<not> has_processed_marker (getAttributes item)"
    by (simp add: has_processed_marker_def)
  with g show ?thesis
    using forEach_body_adjusts [of item]
    by (simp add: operations_cartTransformRun replacement_def)
qed

theorem malformed_blob_empty_attributes_witness:
  \<open>blob_text malformed_line = Some (js ''{"Engraving":'')
   \<and> JSON_parse (js ''{"Engraving":'') = Inl SyntaxError
   \<and> getAttributes malformed_line = []
   \<and> operations (cartTransformRun \<lparr>lines = [malformed_line]\<rparr>) =
       [\<lparr>cartLineId = line_id malformed_line,
         expandedCartItems = [\<lparr>merchandiseId = merchandise_id malformed_line, quantity = 1,
            fixedPricePerUnit = Fin (51 / 2), attributes = []\<rparr>]\<rparr>]\<close>
proof -
  have b: \<open>blob_text malformed_line = Some (js ''{"Engraving":'')\<close> by code_simp
  have e: \<open>JSON_parse (js ''{"Engraving":'') = Inl SyntaxError\<close> by code_simp
  have s: "signal_text malformed_line = Some (js ''5.50'')" by code_simp
  have p: "\<not> isNaN (parseFloat (js ''5.50''))" "num_less (Fin 0) (parseFloat (js ''5.50''))"
    by code_simp+
  have v: "num_add (parseFloat (amountPerQuantity malformed_line)) (parseFloat (js ''5.50'')) = Fin (51 / 2)"
    by code_simp
  from b e have "blob_text malformed_line = None \<or> (\<exists>v. blob_text malformed_line = Some v \<and>
      ((\<exists>e. JSON_parse v = Inl e) \<or> JSON_parse v = Inr JNull))"
    by blast
  from malformed_blob_empty_attributes [OF this] s p v b e show ?thesis
    by simp
qed

section \<open>Properties of the storefront renderers\<close>

lemma run_tag_Emitted: "run_tag (Emitted attrs) cs = Emitted attrs"
  by (induction cs) simp_all

lemma run_tag_append: "run_tag r (xs @ ys) = run_tag (run_tag r xs) ys"
  by (induction xs arbitrary: r) simp_all

lemma run_tag_double_quoted:
  "0x22 \<notin> set xs \<Longrightarrow>
   run_tag (Running (DoubleQuoted n v) attrs) xs = Running (DoubleQuoted n (v @ xs)) attrs"
  by (induction xs arbitrary: v) (simp_all add: tag_step_def)

lemma tag_step_more: "tag_step st (pre @ attrs) c = more_attributes pre (tag_step st attrs c)"
  by (cases st) (simp_all add: tag_step_def before_name_def more_attributes_def)

lemma run_tag_more: "run_tag (more_attributes pre r) cs = more_attributes pre (run_tag r cs)"
proof (induction cs arbitrary: r)
  case Nil
  show ?case by simp
next
  case (Cons c cs)
  show ?case
  proof (cases r)
    case (Running st attrs)
    then show ?thesis
      using Cons.IH [of "tag_step st attrs c"]
      by (simp add: tag_step_more more_attributes_def [of pre "Running st attrs"])
  next
    case (Emitted attrs)
    then show ?thesis by (simp add: more_attributes_def run_tag_Emitted)
  qed
qed

lemma run_tag_from: "run_tag (Running st attrs) cs = more_attributes attrs (run_tag (Running st []) cs)"
  using run_tag_more [of attrs "Running st []" cs] by (simp add: more_attributes_def)

text \<open>
  The container that \<open>wrapWithConditional\<close> puts around a fragment is hidden at first,
  whatever it depends on, when the id and the expected value have no double quote (which
  would end the attribute value early).
\<close>

lemma container_hidden:
  assumes "0x22 \<notin> set d" and "0x22 \<notin> set (interpolate v)"
  shows "inline_display (conditional_container d v html) = Hidden"
proof -
  define p0 where \<open>p0 = [0x0A] @ js ''      <d''\<close>
  define p1 where \<open>p1 = js ''iv class="conditional-option"'' @ [0x0A]
     @ js ''           data-depend-on="''\<close>
  define p2 where \<open>p2 = [0x0A] @ js ''           data-expected-value="''\<close>
  define p3 where \<open>p3 = [0x0A] @ js ''           style="display: none;">''\<close>
  define rest where \<open>rest = [0x0A] @ js ''        '' @ html @ [0x0A] @ js ''      </div>''
     @ [0x0A] @ js ''    ''\<close>
  define dq :: "16 word" where "dq = 0x22"
  have c: "conditional_container d v html
      = p0 @ (p1 @ d @ [dq] @ p2 @ interpolate v @ [dq] @ p3 @ rest)"
    by (simp add: conditional_container_def p0_def p1_def p2_def p3_def rest_def dq_def js_def)
  have h0: "dropWhile (\<lambda>c. c \<noteq> 0x3C) (p0 @ xs) = 0x3C # 0x64 # xs" for xs
    unfolding p0_def by (simp add: js_def)
  have h1: "run_tag (Running TagName []) p1
      = Running (DoubleQuoted (js ''data-depend-on'') []) [(js ''class'', js ''conditional-option'')]"
    unfolding p1_def by code_simp
  have h2: "run_tag (Running AfterQuoted []) p2
      = Running (DoubleQuoted (js ''data-expected-value'') []) []"
    unfolding p2_def by code_simp
  have h3: "run_tag (Running AfterQuoted []) p3 = Emitted [(js ''style'', js ''display: none;'')]"
    unfolding p3_def by code_simp
  have q: "run_tag (run_tag (Running (DoubleQuoted n []) attrs) xs) [dq]
      = Running AfterQuoted (attrs @ [(n, xs)])" if "0x22 \<notin> set xs" for n attrs xs
    using run_tag_double_quoted [OF that, of n "[]" attrs]
    by (simp add: tag_step_def dq_def)
  have g2: "run_tag (Running AfterQuoted attrs) p2
      = Running (DoubleQuoted (js ''data-expected-value'') []) attrs" for attrs
    using run_tag_from [of AfterQuoted attrs p2] by (simp add: h2 more_attributes_def)
  have g3: "run_tag (Running AfterQuoted attrs) p3
      = Emitted (attrs @ [(js ''style'', js ''display: none;'')])" for attrs
    using run_tag_from [of AfterQuoted attrs p3] by (simp add: h3 more_attributes_def)
  let ?a = "[(js ''class'', js ''conditional-option''), (js ''data-depend-on'', d),
     (js ''data-expected-value'', interpolate v), (js ''style'', js ''display: none;'')]"
  have "run_tag (Running TagName []) (p1 @ d @ [dq] @ p2 @ interpolate v @ [dq] @ p3 @ rest)
      = Emitted ?a"
    by (simp only: run_tag_append h1 q [OF assms(1)] g2 q [OF assms(2)] g3 run_tag_Emitted)
      simp
  then have "first_tag_attributes (conditional_container d v html) = Some ?a"
    unfolding c first_tag_attributes_def h0 by (simp add: is_ascii_alpha_def)
  moreover have "js ''class'' \<noteq> js ''style''" "js ''data-depend-on'' \<noteq> js ''style''"
    "js ''data-expected-value'' \<noteq> js ''style''"
    by code_simp+
  ultimately show ?thesis by (simp add: inline_display_def)
qed

text \<open>
  C7. An option whose \<open>dependOnOptionId\<close> does not resolve to another option of type
  radio among its siblings (no option has the id, the option with the id is not a radio,
  or the id is the option's own) gets its fragment back as it is: no container, nothing
  hidden, and no error on the way.
\<close>

theorem unresolved_dependency_unwrapped:
  assumes "dependOnOptionId option = Some d"
    and "d = opt_id option \<or> \<not> (\<exists>opt \<in> set allOptions. opt_id opt = d \<and> type opt = js ''radio'')"
  shows "wrapWithConditional html option allOptions = html"
proof (cases "d = opt_id option")
  case True
  with assms(1) show ?thesis by (simp add: wrapWithConditional_def)
next
  case False
  with assms(2) have "find (\<lambda>opt. opt_id opt = d \<and> type opt = js ''radio'') allOptions = None"
    by (auto simp: find_None_iff)
  with assms(1) show ?thesis by (simp add: wrapWithConditional_def)
qed

theorem unresolved_dependency_unwrapped_witness:
  "wrapWithConditional text_html text_option [text_option] = text_html
   \<and> wrapWithConditional text_html text_option
        [radio_option\<lparr>type := js ''dropdown''\<rparr>, text_option] = text_html
   \<and> wrapWithConditional text_html (text_option\<lparr>dependOnOptionId := Some (js ''opt-note'')\<rparr>)
        [radio_option, text_option\<lparr>dependOnOptionId := Some (js ''opt-note'')\<rparr>] = text_html"
proof -
  have d: "dependOnOptionId text_option = Some (js ''opt-gift'')"
    by (simp add: text_option_def)
  have missing: "js ''opt-gift'' = opt_id text_option
      \<or> \<not> (\<exists>opt \<in> set [text_option]. opt_id opt = js ''opt-gift'' \<and> type opt = js ''radio'')"
    by code_simp
  have not_radio: "js ''opt-gift'' = opt_id text_option
      \<or> \<not> (\<exists>opt \<in> set [radio_option\<lparr>type := js ''dropdown''\<rparr>, text_option].
            opt_id opt = js ''opt-gift'' \<and> type opt = js ''radio'')"
    by code_simp
  have d': "dependOnOptionId (text_option\<lparr>dependOnOptionId := Some (js ''opt-note'')\<rparr>)
      = Some (js ''opt-note'')"
    by simp
  have self: "js ''opt-note'' = opt_id (text_option\<lparr>dependOnOptionId := Some (js ''opt-note'')\<rparr>)"
    by (simp add: text_option_def)
  from unresolved_dependency_unwrapped [OF d missing]
    unresolved_dependency_unwrapped [OF d not_radio]
    unresolved_dependency_unwrapped [OF d' disjI1 [OF self]]
  show ?thesis by blast
qed

text \<open>
  C8, as amended. On initial render an option whose dependency resolves to another option
  of type radio is wrapped in the container that carries the id it depends on, the expected
  value and the inline style \<open>display: none\<close>, whatever the values of the radio are;
  when neither the id nor the expected value has a double quote in it, that container is
  hidden at first.
\<close>

theorem resolved_dependency_hidden:
  assumes "dependOnOptionId option = Some d" and "d \<noteq> []" and "d \<noteq> opt_id option"
    and "radio \<in> set allOptions" and "opt_id radio = d" and "type radio = js ''radio''"
  shows "wrapWithConditional html option allOptions
       = conditional_container d (showWhenValue option) html
     \<and> (0x22 \<notin> set d \<and> 0x22 \<notin> set (interpolate (showWhenValue option)) \<longrightarrow>
          inline_display (wrapWithConditional html option allOptions) = Hidden)"
proof -
  from assms(4-6) obtain r
    where "find (\<lambda>opt. opt_id opt = d \<and> type opt = js ''radio'') allOptions = Some r"
    by (cases "find (\<lambda>opt. opt_id opt = d \<and> type opt = js ''radio'') allOptions")
      (auto simp: find_None_iff)
  with assms(1-3) have "wrapWithConditional html option allOptions
      = conditional_container d (showWhenValue option) html"
    by (auto simp: wrapWithConditional_def)
  then show ?thesis using container_hidden by simp
qed

theorem resolved_dependency_hidden_witness:
  "first_value_label radio_option = Some (js ''Yes'')
   \<and> wrapWithConditional text_html text_option [radio_option, text_option]
       = conditional_container (js ''opt-gift'') (Some (js ''Yes'')) text_html
   \<and> inline_display (wrapWithConditional text_html text_option [radio_option, text_option]) = Hidden"
proof -
  have l: "first_value_label radio_option = Some (js ''Yes'')" by code_simp
  have d: "dependOnOptionId text_option = Some (js ''opt-gift'')"
    by (simp add: text_option_def)
  have n: "js ''opt-gift'' \<noteq> []" "js ''opt-gift'' \<noteq> opt_id text_option"
    by code_simp+
  have r: "radio_option \<in> set [radio_option, text_option]" by simp
  have i: "opt_id radio_option = js ''opt-gift''" "type radio_option = js ''radio''"
    by (simp_all add: radio_option_def)
  have v: "showWhenValue text_option = Some (js ''Yes'')"
    by (simp add: text_option_def)
  have q: "0x22 \<notin> set (js ''opt-gift'')" "0x22 \<notin> set (interpolate (Some (js ''Yes'')))"
    by code_simp+
  from resolved_dependency_hidden [OF d n r i, of text_html] l q show ?thesis
    unfolding v by blast
qed

theorem initially_shown_counterexample:
  "first_value_label radio_option = showWhenValue text_option
   \<and> inline_display (wrapWithConditional text_html text_option [radio_option, text_option]) = Hidden
   \<and> inline_display text_html = NotHidden"
  by code_simp

text \<open>
  C10. \<open>validateNumberInput\<close> corrects 150 to 99 and -5 to 0 and leaves an empty and a
  non-numeric value as they are; but it compares the integer that \<open>parseInt\<close> reads at
  the start of the value, so the values 99.5, 1e3 and -0.5, which are outside the range from
  0 to 99, stay in the field.
\<close>

theorem validateNumberInput_out_of_range_kept:
  "validateNumberInput (js ''99.5'') = (js ''99.5'', None)
   \<and> validateNumberInput (js ''1e3'') = (js ''1e3'', None)
   \<and> validateNumberInput (js ''-0.5'') = (js ''-0.5'', None)
   \<and> validateNumberInput (js ''150'')
       = (js ''99'', Some (js ''Auto-corrected to maximum value: 99'', js ''warning''))
   \<and> validateNumberInput (js ''-5'')
       = (js ''0'', Some (js ''Auto-corrected to minimum value: 0'', js ''warning''))
   \<and> validateNumberInput [] = ([], None)
   \<and> validateNumberInput (js ''abc'') = (js ''abc'', None)"
  by code_simp

end
